theory Spec2Isabelle
  imports Complex_Main "HOL-Library.Word"
begin

unbundle bit_operations_syntax

section \<open>MPU6500 driver (mpu6500.h / mpu6500.c): data model\<close>

text \<open>
  The driver is C for a 32-bit STM32 target: \<open>int\<close> is 32 bits wide, \<open>uint8_t\<close>,
  \<open>int16_t\<close>, \<open>int32_t\<close> and \<open>uint32_t\<close> are words of that width, and a conversion to a
  narrower integer type keeps the low bits. Signed types are words read with \<open>sint\<close>.
\<close>

type_synonym u8 = "8 word"
type_synonym s16 = "16 word"
type_synonym s32 = "32 word"
type_synonym u32 = "32 word"

text \<open>
  Modelled from the spec: the status type \<open>HAL_StatusTypeDef\<close> comes with \<open>main.h\<close> (the
  vendor HAL), which is not among the sources. The driver names \<open>HAL_OK\<close> and \<open>HAL_ERROR\<close>;
  \<open>HAL_BUSY\<close> and \<open>HAL_TIMEOUT\<close> are the other two values the transport can return. Every
  operation passes the transport's status through unchanged.
\<close>

datatype HAL_StatusTypeDef = HAL_OK | HAL_ERROR | HAL_BUSY | HAL_TIMEOUT

text \<open>
  A caller's byte buffer, as the bytes at offsets 0, 1, 2, ... of the pointer handed to
  the transport.
\<close>

type_synonym buffer = "nat \<Rightarrow> u8"

text \<open>
  Modelled from the spec: the bus transport and the delay primitive (\<open>HAL_I2C_Mem_Write\<close>,
  \<open>HAL_I2C_Mem_Read\<close>, \<open>HAL_Delay\<close>) are external collaborators, so the driver is
  parametrised by them. \<open>'b\<close> is whatever the bus and the device behind it are. The
  handle \<open>&hi2c1\<close>, the device address \<open>MPU6500_ADDR << 1\<close>, \<open>I2C_MEMADD_SIZE_8BIT\<close> and
  \<open>HAL_MAX_DELAY\<close> are the same constants in every call and are left out.
  \<^item> \<open>Mem_Write reg data\<close>: the one-byte register write (the driver only writes one byte);
  \<^item> \<open>Mem_Read reg size buf\<close>: the read of \<open>size\<close> bytes starting at \<open>reg\<close> into a buffer
    that holds \<open>buf\<close> before the call; it returns the buffer as it is after the call;
  \<^item> \<open>Delay ms\<close>: the blocking delay.
\<close>

record 'b hal =
  Mem_Write :: "u8 \<Rightarrow> u8 \<Rightarrow> 'b \<Rightarrow> HAL_StatusTypeDef \<times> 'b"
  Mem_Read :: "u8 \<Rightarrow> nat \<Rightarrow> buffer \<Rightarrow> 'b \<Rightarrow> HAL_StatusTypeDef \<times> buffer \<times> 'b"
  Delay :: "nat \<Rightarrow> 'b \<Rightarrow> 'b"

subsection \<open>Full-scale ranges and sensitivities\<close>

text \<open>
  The preprocessor accepts exactly four range codes per sensor (anything else is
  \<open>#error\<close>) and picks the sensitivity with the range, so a build is a pair of ranges.
\<close>

datatype accel_range = ACCEL_FS_2G | ACCEL_FS_4G | ACCEL_FS_8G | ACCEL_FS_16G
datatype gyro_range = GYRO_FS_250DPS | GYRO_FS_500DPS | GYRO_FS_1000DPS | GYRO_FS_2000DPS

fun accel_fs_code :: "accel_range \<Rightarrow> u8" where
  "accel_fs_code ACCEL_FS_2G = 0x00"
| "accel_fs_code ACCEL_FS_4G = 0x08"
| "accel_fs_code ACCEL_FS_8G = 0x10"
| "accel_fs_code ACCEL_FS_16G = 0x18"

fun gyro_fs_code :: "gyro_range \<Rightarrow> u8" where
  "gyro_fs_code GYRO_FS_250DPS = 0x00"
| "gyro_fs_code GYRO_FS_500DPS = 0x08"
| "gyro_fs_code GYRO_FS_1000DPS = 0x10"
| "gyro_fs_code GYRO_FS_2000DPS = 0x18"

text \<open>
  The \<open>float\<close> constants, as the exact values of the binary32 literals. \<open>32.8f\<close> and
  \<open>16.4f\<close> are not binary fractions; the compiler stores the nearest binary32 value.
\<close>

fun MPU6500_ACCEL_SENS :: "accel_range \<Rightarrow> real" where
  "MPU6500_ACCEL_SENS ACCEL_FS_2G = 16384"
| "MPU6500_ACCEL_SENS ACCEL_FS_4G = 8192"
| "MPU6500_ACCEL_SENS ACCEL_FS_8G = 4096"
| "MPU6500_ACCEL_SENS ACCEL_FS_16G = 2048"

fun MPU6500_GYRO_SENS :: "gyro_range \<Rightarrow> real" where
  "MPU6500_GYRO_SENS GYRO_FS_250DPS = 131"
| "MPU6500_GYRO_SENS GYRO_FS_500DPS = 131 / 2"
| "MPU6500_GYRO_SENS GYRO_FS_1000DPS = 8598323 / 262144"
| "MPU6500_GYRO_SENS GYRO_FS_2000DPS = 8598323 / 524288"

record config =
  accel_config :: accel_range
  gyro_config :: gyro_range

definition MPU6500_DEFAULT_CONFIG :: config where
  "MPU6500_DEFAULT_CONFIG = \<lparr>accel_config = ACCEL_FS_4G, gyro_config = GYRO_FS_500DPS\<rparr>"

subsection \<open>Register addresses\<close>

definition CONFIG :: u8 where "CONFIG = 0x1A"
definition GYRO_CONFIG :: u8 where "GYRO_CONFIG = 0x1B"
definition ACCEL_CONFIG :: u8 where "ACCEL_CONFIG = 0x1C"
definition ACCEL_CONFIG_2 :: u8 where "ACCEL_CONFIG_2 = 0x1D"
definition INT_PIN_CFG :: u8 where "INT_PIN_CFG = 0x37"
definition INT_ENABLE :: u8 where "INT_ENABLE = 0x38"
definition ACCEL_XOUT_H :: u8 where "ACCEL_XOUT_H = 0x3B"
definition TEMP_OUT_H :: u8 where "TEMP_OUT_H = 0x41"
definition GYRO_XOUT_H :: u8 where "GYRO_XOUT_H = 0x43"
definition PWR_MGMT_1 :: u8 where "PWR_MGMT_1 = 0x6B"
definition WHO_AM_I :: u8 where "WHO_AM_I = 0x75"

subsection \<open>Process-wide state\<close>

text \<open>
  \<open>accel_offset[3]\<close> and \<open>gyro_offset[3]\<close> are global arrays of three \<open>int16_t\<close>, zero at
  start; a triple holds the cells 0, 1 and 2. The state of a run is the bus together with
  the two arrays.
\<close>

type_synonym 'a vec3 = "'a \<times> 'a \<times> 'a"

record 'b mpu =
  bus :: 'b
  accel_offset :: "s16 vec3"
  gyro_offset :: "s16 vec3"

section \<open>The driver\<close>

subsection \<open>Integer expressions\<close>

text \<open>
  \<open>(int16_t)((buffer[i] << 8) | buffer[i+1])\<close>: both bytes are promoted to \<open>int\<close>, the
  result is cut to 16 bits.
\<close>

definition combine :: "u8 \<Rightarrow> u8 \<Rightarrow> s16" where
  "combine hi lo = ucast (push_bit 8 (ucast hi :: 32 word) OR (ucast lo :: 32 word))"

text \<open>
  \<open>regData |= (1 << n)\<close> and \<open>regData &= ~(1 << n)\<close> on a \<open>uint8_t\<close>: computed in \<open>int\<close>,
  stored back in 8 bits.
\<close>

definition set_bit_u8 :: "nat \<Rightarrow> u8 \<Rightarrow> u8" where
  "set_bit_u8 n regData = ucast ((ucast regData :: 32 word) OR push_bit n 1)"

definition clear_bit_u8 :: "nat \<Rightarrow> u8 \<Rightarrow> u8" where
  "clear_bit_u8 n regData = ucast ((ucast regData :: 32 word) AND NOT (push_bit n 1))"

text \<open>
  \<open>int16_t raw = (int16_t)(...) - offset[i]\<close>: the difference is taken in \<open>int\<close> (both
  operands sign-extended) and stored in an \<open>int16_t\<close>.
\<close>

definition sub_offset :: "s16 \<Rightarrow> s16 \<Rightarrow> s16" where
  "sub_offset raw off = ucast ((scast raw :: 32 word) - (scast off :: 32 word))"

text \<open>\<open>(float)raw / SENS\<close>. The conversion of an \<open>int16_t\<close> to \<open>float\<close> is exact, and so is
  the division by an accelerometer sensitivity (a power of two). For the gyroscope the
  value below is the exact quotient, which C rounds to binary32.\<close>

definition to_units :: "s16 \<Rightarrow> real \<Rightarrow> real" where
  "to_units raw sens = real_of_int (sint raw) / sens"

subsection \<open>Register access\<close>

definition MPU6500_WriteRegister :: "'b hal \<Rightarrow> u8 \<Rightarrow> u8 \<Rightarrow> 'b \<Rightarrow> HAL_StatusTypeDef \<times> 'b" where
  "MPU6500_WriteRegister h reg data b = Mem_Write h reg data b"

text \<open>\<open>data\<close> is what the byte behind the pointer holds before the call; the second
  component of the result is what it holds afterwards.\<close>

definition MPU6500_ReadRegister ::
  "'b hal \<Rightarrow> u8 \<Rightarrow> u8 \<Rightarrow> 'b \<Rightarrow> HAL_StatusTypeDef \<times> u8 \<times> 'b" where
  "MPU6500_ReadRegister h reg data b =
     (case Mem_Read h reg 1 (\<lambda>_. data) b of (status, buf, b') \<Rightarrow> (status, buf 0, b'))"

definition MPU6500_Reset :: "'b hal \<Rightarrow> 'b \<Rightarrow> HAL_StatusTypeDef \<times> 'b" where
  "MPU6500_Reset h b = MPU6500_WriteRegister h PWR_MGMT_1 0x80 b"

definition MPU6500_ConfigureClock :: "'b hal \<Rightarrow> 'b \<Rightarrow> HAL_StatusTypeDef \<times> 'b" where
  "MPU6500_ConfigureClock h b = MPU6500_WriteRegister h PWR_MGMT_1 0x01 b"

definition MPU6500_ConfigureAccel :: "config \<Rightarrow> 'b hal \<Rightarrow> 'b \<Rightarrow> HAL_StatusTypeDef \<times> 'b" where
  "MPU6500_ConfigureAccel cfg h b =
     (case MPU6500_WriteRegister h ACCEL_CONFIG (accel_fs_code (accel_config cfg)) b of
        (status, b1) \<Rightarrow>
          if status \<noteq> HAL_OK then (status, b1)
          else (case MPU6500_WriteRegister h ACCEL_CONFIG_2 0x04 b1 of
            (status, b2) \<Rightarrow>
              if status \<noteq> HAL_OK then (status, b2) else (HAL_OK, b2)))"

definition MPU6500_ConfigureGyro :: "config \<Rightarrow> 'b hal \<Rightarrow> 'b \<Rightarrow> HAL_StatusTypeDef \<times> 'b" where
  "MPU6500_ConfigureGyro cfg h b =
     (case MPU6500_WriteRegister h GYRO_CONFIG (gyro_fs_code (gyro_config cfg)) b of
        (status, b1) \<Rightarrow>
          if status \<noteq> HAL_OK then (status, b1)
          else (case MPU6500_WriteRegister h CONFIG 0x04 b1 of
            (status, b2) \<Rightarrow>
              if status \<noteq> HAL_OK then (status, b2) else (HAL_OK, b2)))"

text \<open>\<open>uint8_t regData\<close> is an uninitialised local; it is taken as 0 before the read.\<close>

definition MPU6500_EnableTemperatureSensor :: "'b hal \<Rightarrow> 'b \<Rightarrow> HAL_StatusTypeDef \<times> 'b" where
  "MPU6500_EnableTemperatureSensor h b =
     (case MPU6500_ReadRegister h PWR_MGMT_1 0 b of
        (status, regData, b1) \<Rightarrow>
          if status \<noteq> HAL_OK then (status, b1)
          else MPU6500_WriteRegister h PWR_MGMT_1 (clear_bit_u8 4 regData) b1)"

definition MPU6500_ConfigureInterrupts :: "'b hal \<Rightarrow> 'b \<Rightarrow> HAL_StatusTypeDef \<times> 'b" where
  "MPU6500_ConfigureInterrupts h b =
     (case MPU6500_WriteRegister h INT_PIN_CFG 0xB0 b of
        (status, b1) \<Rightarrow> if status \<noteq> HAL_OK then (status, b1) else (HAL_OK, b1))"

definition MPU6500_Init :: "config \<Rightarrow> 'b hal \<Rightarrow> 'b \<Rightarrow> HAL_StatusTypeDef \<times> 'b" where
  "MPU6500_Init cfg h b =
     (case MPU6500_Reset h b of (status, b1) \<Rightarrow>
      if status \<noteq> HAL_OK then (status, b1) else
     (case MPU6500_ConfigureClock h (Delay h 100 b1) of (status, b2) \<Rightarrow>
      if status \<noteq> HAL_OK then (status, b2) else
     (case MPU6500_ConfigureAccel cfg h b2 of (status, b3) \<Rightarrow>
      if status \<noteq> HAL_OK then (status, b3) else
     (case MPU6500_ConfigureGyro cfg h b3 of (status, b4) \<Rightarrow>
      if status \<noteq> HAL_OK then (status, b4) else
     (case MPU6500_EnableTemperatureSensor h b4 of (status, b5) \<Rightarrow>
      if status \<noteq> HAL_OK then (status, b5) else
     (case MPU6500_ConfigureInterrupts h b5 of (status, b6) \<Rightarrow>
      if status \<noteq> HAL_OK then (status, b6) else (HAL_OK, b6)))))))"

definition MPU6500_EnableDataReadyInterrupts :: "'b hal \<Rightarrow> 'b \<Rightarrow> HAL_StatusTypeDef \<times> 'b" where
  "MPU6500_EnableDataReadyInterrupts h b = MPU6500_WriteRegister h INT_ENABLE 0x01 b"

definition MPU6500_DisableDataReadyInterrupts :: "'b hal \<Rightarrow> 'b \<Rightarrow> HAL_StatusTypeDef \<times> 'b" where
  "MPU6500_DisableDataReadyInterrupts h b = MPU6500_WriteRegister h INT_ENABLE 0x00 b"

text \<open>The caller's pointer goes to the transport as it is.\<close>

definition MPU6500_ReadWhoAmI ::
  "'b hal \<Rightarrow> u8 \<Rightarrow> 'b \<Rightarrow> HAL_StatusTypeDef \<times> u8 \<times> 'b" where
  "MPU6500_ReadWhoAmI h whoami b = MPU6500_ReadRegister h WHO_AM_I whoami b"

subsection \<open>Reading samples\<close>

text \<open>
  Output parameters: each read function takes what the caller's output cells hold before
  the call and returns what they hold afterwards. The local \<open>buffer\<close> is uninitialised
  in C; it is taken as all zero before the transport fills it.
\<close>

definition MPU6500_ReadRawAccel ::
  "'b hal \<Rightarrow> s16 vec3 \<Rightarrow> 'b \<Rightarrow> HAL_StatusTypeDef \<times> s16 vec3 \<times> 'b" where
  "MPU6500_ReadRawAccel h out b =
     (case Mem_Read h ACCEL_XOUT_H 6 (\<lambda>_. 0) b of (status, buffer, b') \<Rightarrow>
        if status \<noteq> HAL_OK then (status, out, b')
        else (HAL_OK,
              (combine (buffer 0) (buffer 1),
               combine (buffer 2) (buffer 3),
               combine (buffer 4) (buffer 5)), b'))"

definition MPU6500_ReadRawGyro ::
  "'b hal \<Rightarrow> s16 vec3 \<Rightarrow> 'b \<Rightarrow> HAL_StatusTypeDef \<times> s16 vec3 \<times> 'b" where
  "MPU6500_ReadRawGyro h out b =
     (case Mem_Read h GYRO_XOUT_H 6 (\<lambda>_. 0) b of (status, buffer, b') \<Rightarrow>
        if status \<noteq> HAL_OK then (status, out, b')
        else (HAL_OK,
              (combine (buffer 0) (buffer 1),
               combine (buffer 2) (buffer 3),
               combine (buffer 4) (buffer 5)), b'))"

definition MPU6500_ReadAccel ::
  "config \<Rightarrow> 'b hal \<Rightarrow> real vec3 \<Rightarrow> 'b mpu \<Rightarrow> HAL_StatusTypeDef \<times> real vec3 \<times> 'b mpu" where
  "MPU6500_ReadAccel cfg h out s =
     (case Mem_Read h ACCEL_XOUT_H 6 (\<lambda>_. 0) (bus s) of (status, buffer, b') \<Rightarrow>
        if status \<noteq> HAL_OK then (status, out, s\<lparr>bus := b'\<rparr>)
        else
          (case accel_offset s of (off_x, off_y, off_z) \<Rightarrow>
             let raw_x = sub_offset (combine (buffer 0) (buffer 1)) off_x;
                 raw_y = sub_offset (combine (buffer 2) (buffer 3)) off_y;
                 raw_z = sub_offset (combine (buffer 4) (buffer 5)) off_z;
                 sens = MPU6500_ACCEL_SENS (accel_config cfg)
             in (HAL_OK,
                 (to_units raw_x sens, to_units raw_y sens, to_units raw_z sens),
                 s\<lparr>bus := b'\<rparr>)))"

definition MPU6500_ReadGyro ::
  "config \<Rightarrow> 'b hal \<Rightarrow> real vec3 \<Rightarrow> 'b mpu \<Rightarrow> HAL_StatusTypeDef \<times> real vec3 \<times> 'b mpu" where
  "MPU6500_ReadGyro cfg h out s =
     (case Mem_Read h GYRO_XOUT_H 6 (\<lambda>_. 0) (bus s) of (status, buffer, b') \<Rightarrow>
        if status \<noteq> HAL_OK then (status, out, s\<lparr>bus := b'\<rparr>)
        else
          (case gyro_offset s of (off_x, off_y, off_z) \<Rightarrow>
             let raw_x = sub_offset (combine (buffer 0) (buffer 1)) off_x;
                 raw_y = sub_offset (combine (buffer 2) (buffer 3)) off_y;
                 raw_z = sub_offset (combine (buffer 4) (buffer 5)) off_z;
                 sens = MPU6500_GYRO_SENS (gyro_config cfg)
             in (HAL_OK,
                 (to_units raw_x sens, to_units raw_y sens, to_units raw_z sens),
                 s\<lparr>bus := b'\<rparr>)))"

definition MPU6500_ReadTemp ::
  "'b hal \<Rightarrow> s16 \<Rightarrow> 'b \<Rightarrow> HAL_StatusTypeDef \<times> s16 \<times> 'b" where
  "MPU6500_ReadTemp h temp b =
     (case Mem_Read h TEMP_OUT_H 2 (\<lambda>_. 0) b of (status, buffer, b') \<Rightarrow>
        if status \<noteq> HAL_OK then (status, temp, b')
        else (HAL_OK, combine (buffer 0) (buffer 1), b'))"

subsection \<open>Power state\<close>

definition MPU6500_Sleep :: "'b hal \<Rightarrow> 'b \<Rightarrow> HAL_StatusTypeDef \<times> 'b" where
  "MPU6500_Sleep h b =
     (case MPU6500_ReadRegister h PWR_MGMT_1 0 b of
        (status, regData, b1) \<Rightarrow>
          if status \<noteq> HAL_OK then (status, b1)
          else MPU6500_WriteRegister h PWR_MGMT_1 (set_bit_u8 6 regData) b1)"

definition MPU6500_WakeUp :: "'b hal \<Rightarrow> 'b \<Rightarrow> HAL_StatusTypeDef \<times> 'b" where
  "MPU6500_WakeUp h b =
     (case MPU6500_ReadRegister h PWR_MGMT_1 0 b of
        (status, regData, b1) \<Rightarrow>
          if status \<noteq> HAL_OK then (status, b1)
          else MPU6500_WriteRegister h PWR_MGMT_1 (clear_bit_u8 6 regData) b1)"

subsection \<open>Offset calibration\<close>

text \<open>
  \<open>(int16_t)(1.0f * MPU6500_ACCEL_SENS)\<close>: the raw count of 1 g.
\<close>

definition one_g_raw :: "config \<Rightarrow> s16" where
  "one_g_raw cfg = word_of_int \<lfloor>1 * MPU6500_ACCEL_SENS (accel_config cfg)\<rfloor>"

text \<open>
  \<open>sum += raw\<close> with an \<open>int32_t\<close> sum and an \<open>int16_t\<close> sample: the sample is
  sign-extended; the addition is 32-bit two's complement (an overflow, undefined in C,
  wraps here).
\<close>

definition acc_add :: "s32 \<Rightarrow> s16 \<Rightarrow> s32" where
  "acc_add acc raw = acc + scast raw"

text \<open>\<open>sum += (raw - (int16_t)(1.0f * MPU6500_ACCEL_SENS))\<close>: the difference is taken in
  \<open>int\<close>.\<close>

definition acc_add_z :: "config \<Rightarrow> s32 \<Rightarrow> s16 \<Rightarrow> s32" where
  "acc_add_z cfg acc raw = acc + (scast raw - scast (one_g_raw cfg))"

text \<open>
  \<open>(int16_t)(sum / samples)\<close> with \<open>int32_t sum\<close> and \<open>uint32_t samples\<close>: the usual
  arithmetic conversions turn the sum into \<open>uint32_t\<close>, the division is unsigned (as
  \<open>div\<close> on words is), and the quotient is cut to 16 bits.
\<close>

definition mean16 :: "s32 \<Rightarrow> u32 \<Rightarrow> s16" where
  "mean16 acc samples = ucast (acc div samples)"

text \<open>
  The sampling loop \<open>for (i = 0; i < samples; i++)\<close>, by the number of iterations left.
  \<open>raw_accel\<close> and \<open>raw_gyro\<close> are uninitialised locals of the loop body, taken as zero
  before the reads.
\<close>

fun calibration_loop ::
  "config \<Rightarrow> 'b hal \<Rightarrow> nat \<Rightarrow> s32 vec3 \<Rightarrow> s32 vec3 \<Rightarrow> 'b
     \<Rightarrow> HAL_StatusTypeDef \<times> s32 vec3 \<times> s32 vec3 \<times> 'b" where
  "calibration_loop cfg h 0 accel_sum gyro_sum b = (HAL_OK, accel_sum, gyro_sum, b)"
| "calibration_loop cfg h (Suc n) accel_sum gyro_sum b =
     (case MPU6500_ReadRawAccel h (0, 0, 0) b of (status, raw_accel, b1) \<Rightarrow>
      if status \<noteq> HAL_OK then (status, accel_sum, gyro_sum, b1) else
     (case MPU6500_ReadRawGyro h (0, 0, 0) b1 of (status, raw_gyro, b2) \<Rightarrow>
      if status \<noteq> HAL_OK then (status, accel_sum, gyro_sum, b2) else
     (case (accel_sum, gyro_sum, raw_accel, raw_gyro) of
        ((ax, ay, az), (gx, gy, gz), (rax, ray, raz), (rgx, rgy, rgz)) \<Rightarrow>
          calibration_loop cfg h n
            (acc_add ax rax, acc_add ay ray, acc_add_z cfg az raz)
            (acc_add gx rgx, acc_add gy rgy, acc_add gz rgz)
            (Delay h 5 b2))))"

definition MPU6500_InitOffsetCalibration ::
  "config \<Rightarrow> 'b hal \<Rightarrow> u32 \<Rightarrow> 'b mpu \<Rightarrow> HAL_StatusTypeDef \<times> 'b mpu" where
  "MPU6500_InitOffsetCalibration cfg h samples s =
     (if samples = 0 then (HAL_ERROR, s) else
     (case MPU6500_WakeUp h (bus s) of (status, b1) \<Rightarrow>
      if status \<noteq> HAL_OK then (status, s\<lparr>bus := b1\<rparr>) else
     (case calibration_loop cfg h (unat samples) (0, 0, 0) (0, 0, 0) b1 of
        (status, (ax, ay, az), (gx, gy, gz), b2) \<Rightarrow>
      if status \<noteq> HAL_OK then (status, s\<lparr>bus := b2\<rparr>) else
        (HAL_OK,
         \<lparr>bus = b2,
          accel_offset = (mean16 ax samples, mean16 ay samples, mean16 az samples),
          gyro_offset = (mean16 gx samples, mean16 gy samples, mean16 gz samples)\<rparr>))))"

section \<open>Transports used to observe the driver\<close>

subsection \<open>A call log around any transport\<close>

text \<open>
  Modelled from the spec: the transport call-log double of the testable properties, which
  is not among the sources. A register access as the double sees it is the write of a
  byte to a register, or the read of a block starting at a register, with the bytes the
  caller's buffer holds after the call. An entry of the log pairs the access with the
  status it returned. \<open>logged h\<close> behaves as the transport \<open>h\<close> and appends every access to
  the log; the delay is passed on and not logged.
\<close>

datatype access = MemWrite u8 u8 | MemRead u8 "u8 list"

type_synonym call_log = "(access \<times> HAL_StatusTypeDef) list"

definition logged :: "'b hal \<Rightarrow> ('b \<times> call_log) hal" where
  "logged h =
     \<lparr>Mem_Write = (\<lambda>reg data (b, l).
         case Mem_Write h reg data b of
           (status, b') \<Rightarrow> (status, (b', l @ [(MemWrite reg data, status)]))),
      Mem_Read = (\<lambda>reg size buf (b, l).
         case Mem_Read h reg size buf b of
           (status, buf', b') \<Rightarrow>
             (status, buf', (b', l @ [(MemRead reg (map buf' [0..<size]), status)]))),
      Delay = (\<lambda>ms (b, l). (Delay h ms b, l))\<rparr>"

subsection \<open>A simulated device\<close>

text \<open>
  Modelled from the spec: the simulated transport and simulated registers of the testable
  properties, which are not among the sources (the real device is hardware). It is a
  register file behind a bus that can be told to fail: each access takes the next status
  of \<open>script\<close> (\<open>HAL_OK\<close> once the script is used up). A successful write stores the byte;
  a successful read of \<open>size\<close> bytes copies the registers \<open>reg\<close>, \<open>reg + 1\<close>, ... into the
  buffer; a failed access changes neither registers nor buffer.
\<close>

record sim_bus =
  regs :: "u8 \<Rightarrow> u8"
  script :: "HAL_StatusTypeDef list"

definition next_status :: "sim_bus \<Rightarrow> HAL_StatusTypeDef \<times> sim_bus" where
  "next_status b =
     (case script b of [] \<Rightarrow> (HAL_OK, b) | st # rest \<Rightarrow> (st, b\<lparr>script := rest\<rparr>))"

definition sim :: "sim_bus hal" where
  "sim =
     \<lparr>Mem_Write = (\<lambda>reg data b.
         case next_status b of
           (status, b') \<Rightarrow>
             if status \<noteq> HAL_OK then (status, b')
             else (HAL_OK, b'\<lparr>regs := (regs b')(reg := data)\<rparr>)),
      Mem_Read = (\<lambda>reg size buf b.
         case next_status b of
           (status, b') \<Rightarrow>
             if status \<noteq> HAL_OK then (status, buf, b')
             else (HAL_OK, (\<lambda>i. if i < size then regs b' (reg + of_nat i) else buf i), b')),
      Delay = (\<lambda>ms b. b)\<rparr>"

section \<open>Vocabulary of the specification\<close>

text \<open>
  The signed 16-bit big-endian combination of a byte pair, as the specification words it:
  first byte high, second byte low, read as two's complement.
\<close>

definition be16_signed :: "u8 \<Rightarrow> u8 \<Rightarrow> int" where
  "be16_signed hi lo =
     (let u = 256 * uint hi + uint lo in if u < 32768 then u else u - 65536)"

text \<open>
  A run is fail-fast when its call log holds successful accesses only, except that a
  failed run ends with the one failed access, whose status is the status returned.
\<close>

definition fail_fast :: "HAL_StatusTypeDef \<Rightarrow> call_log \<Rightarrow> bool" where
  "fail_fast status es \<longleftrightarrow>
     (if status = HAL_OK then \<forall>e \<in> set es. snd e = HAL_OK
      else es \<noteq> [] \<and> snd (last es) = status \<and> (\<forall>e \<in> set (butlast es). snd e = HAL_OK))"

text \<open>
  The register accesses of the six steps of the initialisation sequence, as the
  specification lists them: 1 reset, 2 clock and wake, 3 two accelerometer writes, 4 two
  gyroscope writes, 5 the temperature-enable read-modify-write (\<open>v\<close> is the byte the read
  returns), 6 the interrupt-pin write. \<open>steps_upto cfg v k\<close> is the accesses of steps 1 to
  \<open>k\<close> in order.
\<close>

definition step_accesses :: "config \<Rightarrow> u8 \<Rightarrow> nat \<Rightarrow> access list" where
  "step_accesses cfg v k =
     (if k = 1 then [MemWrite PWR_MGMT_1 0x80]
      else if k = 2 then [MemWrite PWR_MGMT_1 0x01]
      else if k = 3 then [MemWrite ACCEL_CONFIG (accel_fs_code (accel_config cfg)),
                          MemWrite ACCEL_CONFIG_2 0x04]
      else if k = 4 then [MemWrite GYRO_CONFIG (gyro_fs_code (gyro_config cfg)),
                          MemWrite CONFIG 0x04]
      else if k = 5 then [MemRead PWR_MGMT_1 [v], MemWrite PWR_MGMT_1 (v AND NOT 0x10)]
      else if k = 6 then [MemWrite INT_PIN_CFG 0xB0]
      else [])"

definition steps_upto :: "config \<Rightarrow> u8 \<Rightarrow> nat \<Rightarrow> access list" where
  "steps_upto cfg v k = concat (map (step_accesses cfg v) [1..<Suc k])"

section \<open>Properties\<close>

lemmas reg_defs = CONFIG_def GYRO_CONFIG_def ACCEL_CONFIG_def ACCEL_CONFIG_2_def
  INT_PIN_CFG_def INT_ENABLE_def ACCEL_XOUT_H_def TEMP_OUT_H_def GYRO_XOUT_H_def
  PWR_MGMT_1_def WHO_AM_I_def

lemmas sim_defs = sim_def next_status_def logged_def

subsection \<open>The integer expressions\<close>

lemma combine_word_cat: "combine hi lo = word_cat hi lo"
  unfolding combine_def
  by (rule bit_word_eqI) (auto simp: bit_simps dest: bit_imp_le_length)

lemma uint_combine: "uint (combine hi lo) = 256 * uint hi + uint lo"
proof -
  have hi: "0 \<le> uint hi" "uint hi < 256" and lo: "0 \<le> uint lo" "uint lo < 256"
    using uint_lt2p [of hi] uint_lt2p [of lo] by simp_all
  have "combine hi lo = word_of_int (concat_bit 8 (uint lo) (uint hi))"
    unfolding combine_word_cat word_cat_eq' by simp
  then have "uint (combine hi lo) = take_bit 16 (concat_bit 8 (uint lo) (uint hi))"
    by (simp only: uint_word_of_int_eq len_num1 len_bit0 mult_numeral_left_semiring_numeral
        mult_1_right numeral_times_numeral semiring_norm)
  also have "\<dots> = 256 * uint hi + uint lo"
    using hi lo by (simp add: concat_bit_eq take_bit_eq_mod push_bit_eq_mult)
  finally show ?thesis .
qed

lemma sint_combine: "sint (combine hi lo) = be16_signed hi lo"
proof -
  define u where "u = 256 * uint hi + uint lo"
  have u: "0 \<le> u" "u < 65536"
    using uint_lt2p [of hi] uint_lt2p [of lo] by (simp_all add: u_def)
  have "sint (combine hi lo) = signed_take_bit 15 (uint (combine hi lo))"
    by (simp add: sint_uint)
  also have "\<dots> = (u + 32768) mod 65536 - 32768"
    by (simp add: uint_combine u_def signed_take_bit_eq_take_bit_shift take_bit_eq_mod)
  also have "\<dots> = (if u < 32768 then u else u - 65536)"
  proof (cases "u < 32768")
    case True
    then show ?thesis using u by simp
  next
    case False
    have eq: "u + 32768 = u - 32768 + 1 * 65536"
      by simp
    have "(u + 32768) mod 65536 = (u - 32768) mod 65536"
      unfolding eq by (rule mod_mult_self1)
    also have "\<dots> = u - 32768"
      using False u by simp
    finally show ?thesis using False by simp
  qed
  finally show ?thesis
    by (simp add: be16_signed_def Let_def u_def)
qed

lemma set_bit_u8_eq: "set_bit_u8 n r = r OR push_bit n 1"
  unfolding set_bit_u8_def
  by (rule bit_word_eqI) (auto simp: bit_simps)

lemma clear_bit_u8_eq: "clear_bit_u8 n r = r AND NOT (push_bit n 1)"
  unfolding clear_bit_u8_def
  by (rule bit_word_eqI) (auto simp: bit_simps)

lemma sub_offset_eq: "sub_offset raw off = raw - off"
proof -
  have down: "ucast (word_of_int k :: 32 word) = (word_of_int k :: 16 word)" for k
    by (rule ucast_down_wi) (simp add: is_down)
  have "(scast raw :: 32 word) - scast off = word_of_int (sint raw - sint off)"
    by (simp only: scast_eq of_int_diff)
  then have "sub_offset raw off = word_of_int (sint raw - sint off)"
    unfolding sub_offset_def by (simp only: down)
  then show ?thesis by simp
qed

lemma sint_sub_offset:
  assumes "- 32768 \<le> sint raw - sint off" and "sint raw - sint off \<le> 32767"
  shows "sint (sub_offset raw off) = sint raw - sint off"
proof -
  have "sint (raw - off) = signed_take_bit 15 (sint raw - sint off)"
    by (simp add: sint_word_ariths)
  also have "\<dots> = sint raw - sint off"
    using assms by (simp add: signed_take_bit_int_eq_self)
  finally show ?thesis by (simp add: sub_offset_eq)
qed

subsection \<open>Call logs\<close>

lemma fail_fast_single: "fail_fast status [(a, status)]"
  by (simp add: fail_fast_def)

lemma fail_fast_Nil: "fail_fast HAL_OK []"
  by (simp add: fail_fast_def)

lemma fail_fast_append:
  assumes "fail_fast HAL_OK es1" and "fail_fast status es2"
  shows "fail_fast status (es1 @ es2)"
proof (cases "es2 = []")
  case True
  with assms show ?thesis by (auto simp: fail_fast_def split: if_splits)
next
  case False
  with assms show ?thesis
    by (auto simp: fail_fast_def butlast_append split: if_splits)
qed

lemma fail_fast_last:
  assumes ff: "fail_fast status es" and j: "j < length es" and fail: "snd (es ! j) \<noteq> HAL_OK"
  shows "status = snd (es ! j) \<and> length es = Suc j"
proof -
  from j fail have ex: "\<exists>e \<in> set es. snd e \<noteq> HAL_OK"
    using nth_mem by blast
  with ff have nok: "status \<noteq> HAL_OK" and ne: "es \<noteq> []" and lst: "snd (last es) = status"
    and bl: "\<forall>e \<in> set (butlast es). snd e = HAL_OK"
    by (auto simp: fail_fast_def split: if_splits)
  have "\<not> j < length (butlast es)"
  proof
    assume "j < length (butlast es)"
    then have "butlast es ! j \<in> set (butlast es)" by (rule nth_mem)
    moreover have "butlast es ! j = es ! j"
      using \<open>j < length (butlast es)\<close> by (simp add: nth_butlast)
    ultimately show False using bl fail by auto
  qed
  with j have len: "length es = Suc j" by simp
  with ne have "last es = es ! j" by (simp add: last_conv_nth)
  with lst len show ?thesis by simp
qed

lemma logged_write:
  "MPU6500_WriteRegister (logged h) reg d (b, l) = (status, b', l') \<Longrightarrow>
     l' = l @ [(MemWrite reg d, status)]"
  by (auto simp: MPU6500_WriteRegister_def logged_def split: prod.splits)

lemma logged_read_register:
  "MPU6500_ReadRegister (logged h) reg d (b, l) = (status, v, b', l') \<Longrightarrow>
     l' = l @ [(MemRead reg [v], status)]"
  by (auto simp: MPU6500_ReadRegister_def logged_def split: prod.splits)

lemma logged_delay: "Delay (logged h) ms (b, l) = (Delay h ms b, l)"
  by (simp add: logged_def)


subsection \<open>The initialisation sequence\<close>

lemma upt_1_7: "[Suc 0..<7] = [1, 2, 3, 4, 5, 6]"
  by (simp add: upt_rec)

lemma steps_upto_6:
  "steps_upto cfg v 6 =
     [MemWrite PWR_MGMT_1 0x80, MemWrite PWR_MGMT_1 0x01,
      MemWrite ACCEL_CONFIG (accel_fs_code (accel_config cfg)), MemWrite ACCEL_CONFIG_2 0x04,
      MemWrite GYRO_CONFIG (gyro_fs_code (gyro_config cfg)), MemWrite CONFIG 0x04,
      MemRead PWR_MGMT_1 [v], MemWrite PWR_MGMT_1 (v AND NOT 0x10),
      MemWrite INT_PIN_CFG 0xB0]"
  by (simp add: steps_upto_def step_accesses_def upt_1_7)

lemma Init_log:
  assumes "MPU6500_Init cfg (logged h) (b, []) = (status, b', l)"
  shows "fail_fast status l \<and> (\<exists>v. map fst l = take (length l) (steps_upto cfg v 6))"
  using assms
  unfolding MPU6500_Init_def MPU6500_Reset_def MPU6500_ConfigureClock_def
    MPU6500_ConfigureAccel_def MPU6500_ConfigureGyro_def MPU6500_EnableTemperatureSensor_def
    MPU6500_ConfigureInterrupts_def steps_upto_6
  by (auto simp: fail_fast_def logged_delay clear_bit_u8_eq
      dest!: logged_write logged_read_register split: prod.splits if_splits)


lemma steps_upto_0: "steps_upto cfg v 0 = []"
  by (simp add: steps_upto_def)

lemma steps_upto_Suc: "steps_upto cfg v (Suc k) = steps_upto cfg v k @ step_accesses cfg v (Suc k)"
  by (simp add: steps_upto_def)

lemma length_steps_upto_6: "length (steps_upto cfg v 6) = 9"
  by (simp add: steps_upto_6)

subsection \<open>The calibration run\<close>

lemma fail_fast_pair: "fail_fast status [(a1, HAL_OK), (a2, status)]"
  by (simp add: fail_fast_def)

lemma WakeUp_log:
  assumes "MPU6500_WakeUp (logged h) (b, l) = (status, b', l')"
  shows "\<exists>es. l' = l @ es \<and> fail_fast status es"
proof -
  from assms have
    "(\<exists>v. l' = l @ [(MemRead PWR_MGMT_1 [v], status)]) \<or>
     (\<exists>v. l' = l @ [(MemRead PWR_MGMT_1 [v], HAL_OK),
                     (MemWrite PWR_MGMT_1 (clear_bit_u8 6 v), status)])"
    unfolding MPU6500_WakeUp_def
    by (auto dest!: logged_write logged_read_register split: prod.splits if_splits)
  then show ?thesis
    using fail_fast_single fail_fast_pair by blast
qed

lemma ReadRawAccel_log:
  assumes "MPU6500_ReadRawAccel (logged h) out (b, l) = (status, out', b', l')"
  shows "\<exists>a. l' = l @ [(a, status)]"
  using assms unfolding MPU6500_ReadRawAccel_def
  by (auto simp: logged_def split: prod.splits if_splits)

lemma ReadRawGyro_log:
  assumes "MPU6500_ReadRawGyro (logged h) out (b, l) = (status, out', b', l')"
  shows "\<exists>a. l' = l @ [(a, status)]"
  using assms unfolding MPU6500_ReadRawGyro_def
  by (auto simp: logged_def split: prod.splits if_splits)

lemma calibration_loop_log:
  assumes "calibration_loop cfg (logged h) n asum gsum (b, l) = (status, asum', gsum', b', l')"
  shows "\<exists>es. l' = l @ es \<and> fail_fast status es"
  using assms
proof (induction n arbitrary: asum gsum b l)
  case 0
  then show ?case by (simp add: fail_fast_Nil)
next
  case (Suc n)
  obtain st1 ra b1 l1 where r1: "MPU6500_ReadRawAccel (logged h) (0, 0, 0) (b, l) = (st1, ra, b1, l1)"
    by (metis prod_cases4)
  from ReadRawAccel_log [OF r1] obtain a1 where l1: "l1 = l @ [(a1, st1)]" by blast
  show ?case
  proof (cases "st1 = HAL_OK")
    case False
    with Suc.prems r1 l1 show ?thesis
      by (auto simp: fail_fast_single)
  next
    case ok1: True
    obtain st2 rg b2 l2 where r2: "MPU6500_ReadRawGyro (logged h) (0, 0, 0) (b1, l1) = (st2, rg, b2, l2)"
      by (metis prod_cases4)
    from ReadRawGyro_log [OF r2] obtain a2 where l2: "l2 = l1 @ [(a2, st2)]" by blast
    show ?thesis
    proof (cases "st2 = HAL_OK")
      case False
      with Suc.prems r1 r2 ok1 have "status = st2" "l' = l2"
        by auto
      moreover have "fail_fast st2 ([(a1, HAL_OK)] @ [(a2, st2)])"
        by (rule fail_fast_append) (simp_all add: fail_fast_def)
      ultimately show ?thesis using l1 l2 ok1 by auto
    next
      case ok2: True
      from Suc.prems r1 r2 ok1 ok2 obtain asum2 gsum2 where
        rec: "calibration_loop cfg (logged h) n asum2 gsum2 (Delay h 5 b2, l2) =
                (status, asum', gsum', b', l')"
        by (auto simp: logged_delay split: prod.splits)
      from Suc.IH [OF rec] obtain es where es: "l' = l2 @ es" "fail_fast status es"
        by blast
      have "fail_fast HAL_OK [(a1, HAL_OK), (a2, HAL_OK)]"
        by (simp add: fail_fast_def)
      from fail_fast_append [OF this es(2)] es(1) l1 l2 ok1 ok2 show ?thesis
        by auto
    qed
  qed
qed

lemmas calib_defs = MPU6500_InitOffsetCalibration_def MPU6500_WakeUp_def
  MPU6500_ReadRegister_def MPU6500_WriteRegister_def MPU6500_ReadRawAccel_def
  MPU6500_ReadRawGyro_def

lemma calibration_loop_numeral:
  "calibration_loop cfg h (numeral k) asum gsum b =
     calibration_loop cfg h (Suc (pred_numeral k)) asum gsum b"
  by (simp add: numeral_eq_Suc)

lemma upt_0_6: "[0..<6] = [0, 1, 2, 3, 4, 5]"
  by (simp add: upt_rec)

subsection \<open>The simulated device without failures\<close>

lemma sim_ReadRawAccel:
  "MPU6500_ReadRawAccel sim out \<lparr>regs = r, script = []\<rparr> =
     (HAL_OK,
      (combine (r 0x3B) (r 0x3C), combine (r 0x3D) (r 0x3E), combine (r 0x3F) (r 0x40)),
      \<lparr>regs = r, script = []\<rparr>)"
  by (simp add: MPU6500_ReadRawAccel_def sim_defs reg_defs)

lemma sim_ReadRawGyro:
  "MPU6500_ReadRawGyro sim out \<lparr>regs = r, script = []\<rparr> =
     (HAL_OK,
      (combine (r 0x43) (r 0x44), combine (r 0x45) (r 0x46), combine (r 0x47) (r 0x48)),
      \<lparr>regs = r, script = []\<rparr>)"
  by (simp add: MPU6500_ReadRawGyro_def sim_defs reg_defs)

lemma sim_Delay: "Delay sim ms b = b"
  by (simp add: sim_def)

lemma sim_WakeUp:
  "MPU6500_WakeUp sim \<lparr>regs = r, script = []\<rparr> =
     (HAL_OK, \<lparr>regs = r(PWR_MGMT_1 := r PWR_MGMT_1 AND NOT 0x40), script = []\<rparr>)"
  by (simp add: MPU6500_WakeUp_def MPU6500_ReadRegister_def MPU6500_WriteRegister_def
      sim_defs clear_bit_u8_eq)

lemma sim_calibration_loop:
  "calibration_loop cfg sim n (ax, ay, az) (gx, gy, gz) \<lparr>regs = r, script = []\<rparr> =
     (HAL_OK,
      (ax + of_nat n * scast (combine (r 0x3B) (r 0x3C)),
       ay + of_nat n * scast (combine (r 0x3D) (r 0x3E)),
       az + of_nat n * (scast (combine (r 0x3F) (r 0x40)) - scast (one_g_raw cfg))),
      (gx + of_nat n * scast (combine (r 0x43) (r 0x44)),
       gy + of_nat n * scast (combine (r 0x45) (r 0x46)),
       gz + of_nat n * scast (combine (r 0x47) (r 0x48))),
      \<lparr>regs = r, script = []\<rparr>)"
  by (induction n arbitrary: ax ay az gx gy gz)
    (simp_all add: sim_ReadRawAccel sim_ReadRawGyro sim_Delay acc_add_def acc_add_z_def
      algebra_simps)

lemma sim_calibration:
  assumes "samples \<noteq> 0"
  shows "MPU6500_InitOffsetCalibration cfg sim samples
      \<lparr>bus = \<lparr>regs = r, script = []\<rparr>, accel_offset = ao, gyro_offset = go\<rparr> =
     (let q = r(PWR_MGMT_1 := r PWR_MGMT_1 AND NOT 0x40) in
      (HAL_OK,
       \<lparr>bus = \<lparr>regs = q, script = []\<rparr>,
        accel_offset =
          (mean16 (samples * scast (combine (q 0x3B) (q 0x3C))) samples,
           mean16 (samples * scast (combine (q 0x3D) (q 0x3E))) samples,
           mean16 (samples * (scast (combine (q 0x3F) (q 0x40)) - scast (one_g_raw cfg))) samples),
        gyro_offset =
          (mean16 (samples * scast (combine (q 0x43) (q 0x44))) samples,
           mean16 (samples * scast (combine (q 0x45) (q 0x46))) samples,
           mean16 (samples * scast (combine (q 0x47) (q 0x48))) samples)\<rparr>))"
  using assms
  by (simp add: MPU6500_InitOffsetCalibration_def sim_WakeUp sim_calibration_loop Let_def)

subsection \<open>Conversion to physical units when the difference fits 16 bits\<close>

text \<open>
  As long as \<open>raw - offset\<close> lies in the \<open>int16_t\<close> range, \<open>MPU6500_ReadAccel\<close> and
  \<open>MPU6500_ReadGyro\<close> return \<open>(raw - offset) / sensitivity\<close> on every axis.
\<close>

lemma to_units_sub_offset:
  assumes "- 32768 \<le> sint raw - sint off" and "sint raw - sint off \<le> 32767"
  shows "to_units (sub_offset raw off) sens = real_of_int (sint raw - sint off) / sens"
  using sint_sub_offset [OF assms] by (simp add: to_units_def)

lemma ReadAccel_in_range:
  assumes rd: "Mem_Read h ACCEL_XOUT_H 6 (\<lambda>_. 0) (bus s) = (HAL_OK, buf, b')"
    and off: "accel_offset s = (off_x, off_y, off_z)"
    and x: "- 32768 \<le> be16_signed (buf 0) (buf 1) - sint off_x"
           "be16_signed (buf 0) (buf 1) - sint off_x \<le> 32767"
    and y: "- 32768 \<le> be16_signed (buf 2) (buf 3) - sint off_y"
           "be16_signed (buf 2) (buf 3) - sint off_y \<le> 32767"
    and z: "- 32768 \<le> be16_signed (buf 4) (buf 5) - sint off_z"
           "be16_signed (buf 4) (buf 5) - sint off_z \<le> 32767"
  shows "MPU6500_ReadAccel cfg h out s =
     (HAL_OK,
      (real_of_int (be16_signed (buf 0) (buf 1) - sint off_x) / MPU6500_ACCEL_SENS (accel_config cfg),
       real_of_int (be16_signed (buf 2) (buf 3) - sint off_y) / MPU6500_ACCEL_SENS (accel_config cfg),
       real_of_int (be16_signed (buf 4) (buf 5) - sint off_z) / MPU6500_ACCEL_SENS (accel_config cfg)),
      s\<lparr>bus := b'\<rparr>)"
  using x y z
  by (simp add: MPU6500_ReadAccel_def rd off Let_def to_units_sub_offset
      sint_combine [symmetric])

lemma ReadGyro_in_range:
  assumes rd: "Mem_Read h GYRO_XOUT_H 6 (\<lambda>_. 0) (bus s) = (HAL_OK, buf, b')"
    and off: "gyro_offset s = (off_x, off_y, off_z)"
    and x: "- 32768 \<le> be16_signed (buf 0) (buf 1) - sint off_x"
           "be16_signed (buf 0) (buf 1) - sint off_x \<le> 32767"
    and y: "- 32768 \<le> be16_signed (buf 2) (buf 3) - sint off_y"
           "be16_signed (buf 2) (buf 3) - sint off_y \<le> 32767"
    and z: "- 32768 \<le> be16_signed (buf 4) (buf 5) - sint off_z"
           "be16_signed (buf 4) (buf 5) - sint off_z \<le> 32767"
  shows "MPU6500_ReadGyro cfg h out s =
     (HAL_OK,
      (real_of_int (be16_signed (buf 0) (buf 1) - sint off_x) / MPU6500_GYRO_SENS (gyro_config cfg),
       real_of_int (be16_signed (buf 2) (buf 3) - sint off_y) / MPU6500_GYRO_SENS (gyro_config cfg),
       real_of_int (be16_signed (buf 4) (buf 5) - sint off_z) / MPU6500_GYRO_SENS (gyro_config cfg)),
      s\<lparr>bus := b'\<rparr>)"
  using x y z
  by (simp add: MPU6500_ReadGyro_def rd off Let_def to_units_sub_offset
      sint_combine [symmetric])

lemma conversion_examples:
  "to_units (sub_offset 0 0) sens = 0"
  "to_units (sub_offset 16384 0) (MPU6500_ACCEL_SENS ACCEL_FS_2G) = 1"
  "to_units (sub_offset (- 16384) 0) (MPU6500_ACCEL_SENS ACCEL_FS_2G) = - 1"
  "to_units (sub_offset 16384 0) (MPU6500_ACCEL_SENS (accel_config MPU6500_DEFAULT_CONFIG)) = 2"
  by (simp_all add: to_units_def sub_offset_eq MPU6500_DEFAULT_CONFIG_def)

section \<open>The claims\<close>

text \<open>
  C1. The claim: for every raw sample and every offset, \<open>MPU6500_ReadAccel\<close> and
  \<open>MPU6500_ReadGyro\<close> return exactly \<open>(raw - offset) / sensitivity\<close> per axis. The code
  stores \<open>raw - offset\<close> in an \<open>int16_t\<close> before the division, so a difference outside
  \<open>-32768 .. 32767\<close> wraps. With the bytes \<open>7F FF\<close> for X (raw 32767), offset -1 and the
  default range of 4 g (sensitivity 8192), the difference is 32768 and the claim gives
  4.0; the code returns -4.0.
\<close>

theorem ReadAccel_difference_wraps:
  "MPU6500_ReadAccel MPU6500_DEFAULT_CONFIG sim (0, 0, 0)
      \<lparr>bus = \<lparr>regs = (\<lambda>_. 0)(0x3B := 0x7F, 0x3C := 0xFF), script = []\<rparr>,
       accel_offset = (- 1, 0, 0), gyro_offset = (0, 0, 0)\<rparr> =
     (HAL_OK, (- 4, 0, 0),
      \<lparr>bus = \<lparr>regs = (\<lambda>_. 0)(0x3B := 0x7F, 0x3C := 0xFF), script = []\<rparr>,
       accel_offset = (- 1, 0, 0), gyro_offset = (0, 0, 0)\<rparr>) \<and>
   real_of_int (be16_signed 0x7F 0xFF - sint (- 1 :: s16)) /
     MPU6500_ACCEL_SENS (accel_config MPU6500_DEFAULT_CONFIG) = 4"
  by (simp add: MPU6500_ReadAccel_def sim_defs reg_defs combine_def sub_offset_def
      to_units_def MPU6500_DEFAULT_CONFIG_def be16_signed_def)

text \<open>
  C2. The claim: the stored offsets are the integer means of the raw samples (accelerometer
  Z less the 1 g count), so that N identical samples give that sample back. The code
  divides the \<open>int32_t\<close> sum by the \<open>uint32_t\<close> sample count, which makes the division
  unsigned. With three samples of -1 on every axis (all sample bytes \<open>FF\<close>) the claim
  gives the offsets -1 and, for accelerometer Z, -1 - 8192; the code stores 21844 and
  13652.
\<close>

theorem calibration_mean_of_negative_samples:
  "MPU6500_InitOffsetCalibration MPU6500_DEFAULT_CONFIG sim 3
      \<lparr>bus = \<lparr>regs = (\<lambda>_. 0xFF), script = []\<rparr>,
       accel_offset = (0, 0, 0), gyro_offset = (0, 0, 0)\<rparr> =
     (HAL_OK,
      \<lparr>bus = \<lparr>regs = (\<lambda>_. 0xFF)(PWR_MGMT_1 := 0xBF), script = []\<rparr>,
       accel_offset = (21844, 21844, 13652), gyro_offset = (21844, 21844, 21844)\<rparr>) \<and>
   be16_signed 0xFF 0xFF = - 1 \<and> sint (one_g_raw MPU6500_DEFAULT_CONFIG) = 8192"
proof -
  have c: "combine 0xFF 0xFF = (- 1 :: s16)"
    by (simp add: combine_def)
  have g: "one_g_raw MPU6500_DEFAULT_CONFIG = 8192"
    by (simp add: one_g_raw_def MPU6500_DEFAULT_CONFIG_def)
  have m1: "mean16 (- 3) 3 = 21844"
    by (simp add: mean16_def)
  have m2: "mean16 (- 24579) 3 = 13652"
    by (simp add: mean16_def)
  have nz: "(3 :: u32) \<noteq> 0"
    by simp
  have q: "(\<lambda>_. 0xFF :: u8)(PWR_MGMT_1 := 0xFF AND NOT 0x40) = (\<lambda>_. 0xFF)(PWR_MGMT_1 := 0xBF)"
    by simp
  have "MPU6500_InitOffsetCalibration MPU6500_DEFAULT_CONFIG sim 3
      \<lparr>bus = \<lparr>regs = (\<lambda>_. 0xFF), script = []\<rparr>,
       accel_offset = (0, 0, 0), gyro_offset = (0, 0, 0)\<rparr> =
     (HAL_OK,
      \<lparr>bus = \<lparr>regs = (\<lambda>_. 0xFF)(PWR_MGMT_1 := 0xBF), script = []\<rparr>,
       accel_offset = (21844, 21844, 13652), gyro_offset = (21844, 21844, 21844)\<rparr>)"
    unfolding sim_calibration [OF nz] Let_def q
    by (simp add: reg_defs c g m1 m2)
  moreover have "be16_signed 0xFF 0xFF = - 1"
    by (simp add: be16_signed_def)
  moreover have "sint (one_g_raw MPU6500_DEFAULT_CONFIG) = 8192"
    by (simp add: g)
  ultimately show ?thesis by simp
qed

text \<open>
  C3 (as amended). With \<open>samples = 0\<close> the calibration returns \<open>HAL_ERROR\<close>, the generic
  error status that a failed bus transaction also yields, and returns the state it was
  given: no transport operation is performed (the bus state, whatever transport it
  belongs to, is untouched) and the six offsets are unchanged.
\<close>

theorem calibration_zero_samples:
  "MPU6500_InitOffsetCalibration cfg h 0 s = (HAL_ERROR, s)"
  by (simp add: MPU6500_InitOffsetCalibration_def)

text \<open>
  C3 as stated asks for a status distinct from the transport's failure codes. It is not:
  on a bus whose next access fails with \<open>HAL_ERROR\<close>, calibrating with no sample and
  calibrating with one sample return the same status.
\<close>

theorem calibration_zero_samples_counterexample:
  "fst (MPU6500_InitOffsetCalibration MPU6500_DEFAULT_CONFIG sim 0
          \<lparr>bus = \<lparr>regs = (\<lambda>_. 0), script = [HAL_ERROR]\<rparr>,
           accel_offset = (0, 0, 0), gyro_offset = (0, 0, 0)\<rparr>) =
   fst (MPU6500_InitOffsetCalibration MPU6500_DEFAULT_CONFIG sim 1
          \<lparr>bus = \<lparr>regs = (\<lambda>_. 0), script = [HAL_ERROR]\<rparr>,
           accel_offset = (0, 0, 0), gyro_offset = (0, 0, 0)\<rparr>)"
  by (simp add: MPU6500_InitOffsetCalibration_def MPU6500_WakeUp_def
      MPU6500_ReadRegister_def sim_defs)

text \<open>
  C4. Run the calibration over any transport, with a call log around it. If any access of
  the run fails (access number \<open>j\<close> of the log, counted from 0; a raw accelerometer or
  gyroscope read of any iteration in particular), then the calibration returns the status
  of that access, that access is the last one performed, and the six offsets are what
  they were before the call.
\<close>

theorem calibration_failure_keeps_offsets:
  assumes run: "MPU6500_InitOffsetCalibration cfg (logged h) samples
                  \<lparr>bus = (b, []), accel_offset = ao, gyro_offset = go\<rparr> = (status, s')"
    and j: "j < length (snd (bus s'))"
    and fail: "snd (snd (bus s') ! j) \<noteq> HAL_OK"
  shows "status = snd (snd (bus s') ! j) \<and> length (snd (bus s')) = Suc j \<and>
         accel_offset s' = ao \<and> gyro_offset s' = go"
proof -
  have "fail_fast status (snd (bus s')) \<and> (status \<noteq> HAL_OK \<longrightarrow> accel_offset s' = ao \<and> gyro_offset s' = go)"
  proof (cases "samples = 0")
    case True
    with run j show ?thesis
      by (auto simp: MPU6500_InitOffsetCalibration_def)
  next
    case nz: False
    obtain st1 b1 l1 where w: "MPU6500_WakeUp (logged h) (b, []) = (st1, b1, l1)"
      by (metis prod_cases3)
    from WakeUp_log [OF w] have ff1: "fail_fast st1 l1" by simp
    show ?thesis
    proof (cases "st1 = HAL_OK")
      case False
      with run nz w ff1 show ?thesis
        by (auto simp: MPU6500_InitOffsetCalibration_def)
    next
      case ok1: True
      obtain st2 asum gsum b2 l2 where
        lp: "calibration_loop cfg (logged h) (unat samples) (0, 0, 0) (0, 0, 0) (b1, l1) =
               (st2, asum, gsum, b2, l2)"
        by (metis prod_cases5)
      from calibration_loop_log [OF lp] obtain es where es: "l2 = l1 @ es" "fail_fast st2 es"
        by blast
      from ff1 ok1 es have ff2: "fail_fast st2 l2"
        by (auto intro: fail_fast_append)
      from run nz w ok1 lp have "status = st2" "snd (bus s') = l2"
        and "st2 \<noteq> HAL_OK \<longrightarrow> accel_offset s' = ao \<and> gyro_offset s' = go"
        by (auto simp: MPU6500_InitOffsetCalibration_def split: prod.splits if_splits)
      with ff2 show ?thesis by simp
    qed
  qed
  then have ff: "fail_fast status (snd (bus s'))"
    and keep: "status \<noteq> HAL_OK \<Longrightarrow> accel_offset s' = ao \<and> gyro_offset s' = go"
    by simp_all
  from fail_fast_last [OF ff j fail] have "status = snd (snd (bus s') ! j)"
    and "length (snd (bus s')) = Suc j" by simp_all
  with fail keep show ?thesis by simp
qed

theorem calibration_failure_keeps_offsets_witness:
  "MPU6500_InitOffsetCalibration MPU6500_DEFAULT_CONFIG (logged sim) 2
     \<lparr>bus = (\<lparr>regs = (\<lambda>_. 0), script = [HAL_OK, HAL_OK, HAL_OK, HAL_BUSY]\<rparr>, []),
      accel_offset = (1, 2, 3), gyro_offset = (4, 5, 6)\<rparr> =
   (HAL_BUSY,
    \<lparr>bus = (\<lparr>regs = (\<lambda>_. 0)(PWR_MGMT_1 := 0), script = []\<rparr>,
            [(MemRead PWR_MGMT_1 [0], HAL_OK), (MemWrite PWR_MGMT_1 0, HAL_OK),
             (MemRead ACCEL_XOUT_H [0, 0, 0, 0, 0, 0], HAL_OK),
             (MemRead GYRO_XOUT_H [0, 0, 0, 0, 0, 0], HAL_BUSY)]),
      accel_offset = (1, 2, 3), gyro_offset = (4, 5, 6)\<rparr>)"
  (is "?run = (_, ?s')")
proof -
  have run: "?run = (HAL_BUSY, ?s')"
    by (simp add: calib_defs sim_defs clear_bit_u8_eq calibration_loop_numeral upt_0_6
        reg_defs cong: if_cong)
  have j: "3 < length (snd (bus ?s'))"
    by simp
  have fail: "snd (snd (bus ?s') ! 3) \<noteq> HAL_OK"
    by simp
  show ?thesis
    using calibration_failure_keeps_offsets [OF run j fail] run by simp
qed

text \<open>
  C5 (as amended). Run \<open>MPU6500_Init\<close> over any transport, with a call log around it. If
  an access of the run fails (access number \<open>j\<close> of the log, counted from 0), then
  \<open>MPU6500_Init\<close> returns the status of that access, that access is the last one
  performed, and there is a step \<open>k\<close> from 1 to 6 that the failed access belongs to, such
  that the accesses performed are, in order, all accesses of steps 1 to \<open>k - 1\<close> followed by
  the first \<open>m\<close> accesses of step \<open>k\<close>, the failed one being the last of them; no access
  of a later step is performed.
\<close>

theorem Init_stops_at_first_failure:
  assumes run: "MPU6500_Init cfg (logged h) (b, []) = (status, b', l)"
    and j: "j < length l" and fail: "snd (l ! j) \<noteq> HAL_OK"
  shows "status = snd (l ! j) \<and> length l = Suc j \<and>
         (\<exists>v k m. 1 \<le> k \<and> k \<le> 6 \<and> 1 \<le> m \<and> m \<le> length (step_accesses cfg v k) \<and>
            map fst l = steps_upto cfg v (k - 1) @ take m (step_accesses cfg v k))"
proof -
  from Init_log [OF run] obtain v
    where ff: "fail_fast status l"
      and acc: "map fst l = take (length l) (steps_upto cfg v 6)"
    by blast
  from fail_fast_last [OF ff j fail]
  have st: "status = snd (l ! j)" and len: "length l = Suc j"
    by simp_all
  from acc len have pre: "map fst l = take (Suc j) (steps_upto cfg v 6)"
    by simp
  have "length (map fst l) \<le> 9"
    unfolding acc by (simp add: length_steps_upto_6)
  with len have "j < 9" by simp
  then consider "j = 0" | "j = 1" | "j = 2" | "j = 3" | "j = 4" | "j = 5"
    | "j = 6" | "j = 7" | "j = 8"
    by linarith
  then have "\<exists>k m. 1 \<le> k \<and> k \<le> 6 \<and> 1 \<le> m \<and> m \<le> length (step_accesses cfg v k) \<and>
            take (Suc j) (steps_upto cfg v 6) =
              steps_upto cfg v (k - 1) @ take m (step_accesses cfg v k)"
  proof cases
    case 1
    then show ?thesis
      by (intro exI [of _ 1])
        (simp add: eval_nat_numeral steps_upto_Suc steps_upto_0 step_accesses_def)
  next
    case 2
    then show ?thesis
      by (intro exI [of _ 2] exI [of _ 1])
        (simp add: eval_nat_numeral steps_upto_Suc steps_upto_0 step_accesses_def)
  next
    case 3
    then show ?thesis
      by (intro exI [of _ 3] exI [of _ 1])
        (simp add: eval_nat_numeral steps_upto_Suc steps_upto_0 step_accesses_def)
  next
    case 4
    then show ?thesis
      by (intro exI [of _ 3] exI [of _ 2])
        (simp add: eval_nat_numeral steps_upto_Suc steps_upto_0 step_accesses_def)
  next
    case 5
    then show ?thesis
      by (intro exI [of _ 4] exI [of _ 1])
        (simp add: eval_nat_numeral steps_upto_Suc steps_upto_0 step_accesses_def)
  next
    case 6
    then show ?thesis
      by (intro exI [of _ 4] exI [of _ 2])
        (simp add: eval_nat_numeral steps_upto_Suc steps_upto_0 step_accesses_def)
  next
    case 7
    then show ?thesis
      by (intro exI [of _ 5] exI [of _ 1])
        (simp add: eval_nat_numeral steps_upto_Suc steps_upto_0 step_accesses_def)
  next
    case 8
    then show ?thesis
      by (intro exI [of _ 5] exI [of _ 2])
        (simp add: eval_nat_numeral steps_upto_Suc steps_upto_0 step_accesses_def)
  next
    case 9
    then show ?thesis
      by (intro exI [of _ 6] exI [of _ 1])
        (simp add: eval_nat_numeral steps_upto_Suc steps_upto_0 step_accesses_def)
  qed
  with st len pre show ?thesis by auto
qed

theorem Init_stops_at_first_failure_witness:
  "fst (MPU6500_Init MPU6500_DEFAULT_CONFIG (logged sim)
         (\<lparr>regs = (\<lambda>_. 0), script = [HAL_OK, HAL_OK, HAL_TIMEOUT]\<rparr>, [])) = HAL_TIMEOUT \<and>
   snd (snd (MPU6500_Init MPU6500_DEFAULT_CONFIG (logged sim)
         (\<lparr>regs = (\<lambda>_. 0), script = [HAL_OK, HAL_OK, HAL_TIMEOUT]\<rparr>, []))) =
     [(MemWrite PWR_MGMT_1 0x80, HAL_OK), (MemWrite PWR_MGMT_1 0x01, HAL_OK),
      (MemWrite ACCEL_CONFIG 0x08, HAL_TIMEOUT)]"
proof -
  have run: "MPU6500_Init MPU6500_DEFAULT_CONFIG (logged sim)
         (\<lparr>regs = (\<lambda>_. 0), script = [HAL_OK, HAL_OK, HAL_TIMEOUT]\<rparr>, []) =
       (HAL_TIMEOUT, \<lparr>regs = (\<lambda>_. 0)(PWR_MGMT_1 := 0x01), script = []\<rparr>,
        [(MemWrite PWR_MGMT_1 0x80, HAL_OK), (MemWrite PWR_MGMT_1 0x01, HAL_OK),
         (MemWrite ACCEL_CONFIG 0x08, HAL_TIMEOUT)])"
    by (simp add: MPU6500_Init_def MPU6500_Reset_def MPU6500_ConfigureClock_def
        MPU6500_ConfigureAccel_def MPU6500_WriteRegister_def MPU6500_DEFAULT_CONFIG_def
        sim_defs)
  have j: "2 < length [(MemWrite PWR_MGMT_1 0x80, HAL_OK), (MemWrite PWR_MGMT_1 0x01, HAL_OK),
         (MemWrite ACCEL_CONFIG 0x08, HAL_TIMEOUT)]"
    by simp
  have fail: "snd ([(MemWrite PWR_MGMT_1 0x80, HAL_OK), (MemWrite PWR_MGMT_1 0x01, HAL_OK),
         (MemWrite ACCEL_CONFIG 0x08, HAL_TIMEOUT)] ! 2) \<noteq> HAL_OK"
    by simp
  show ?thesis
    using Init_stops_at_first_failure [OF run j fail] run by simp
qed

text \<open>
  C5 as stated has the run perform exactly the accesses of steps 1 to \<open>k\<close>. A step with
  two accesses stops at its first failure: when the first accelerometer write (step 3)
  fails, the log holds three accesses, and the second accelerometer write, which is among
  the accesses of steps 1 to 3, is not performed.
\<close>

theorem Init_stops_at_first_failure_counterexample:
  "fst (MPU6500_Init MPU6500_DEFAULT_CONFIG (logged sim)
         (\<lparr>regs = (\<lambda>_. 0), script = [HAL_OK, HAL_OK, HAL_TIMEOUT]\<rparr>, [])) = HAL_TIMEOUT \<and>
   map fst (snd (snd (MPU6500_Init MPU6500_DEFAULT_CONFIG (logged sim)
         (\<lparr>regs = (\<lambda>_. 0), script = [HAL_OK, HAL_OK, HAL_TIMEOUT]\<rparr>, [])))) =
     [MemWrite PWR_MGMT_1 0x80, MemWrite PWR_MGMT_1 0x01, MemWrite ACCEL_CONFIG 0x08] \<and>
   steps_upto MPU6500_DEFAULT_CONFIG 0 3 =
     [MemWrite PWR_MGMT_1 0x80, MemWrite PWR_MGMT_1 0x01, MemWrite ACCEL_CONFIG 0x08,
      MemWrite ACCEL_CONFIG_2 0x04] \<and>
   map fst (snd (snd (MPU6500_Init MPU6500_DEFAULT_CONFIG (logged sim)
         (\<lparr>regs = (\<lambda>_. 0), script = [HAL_OK, HAL_OK, HAL_TIMEOUT]\<rparr>, [])))) \<noteq>
     steps_upto MPU6500_DEFAULT_CONFIG 0 3"
proof -
  have run: "MPU6500_Init MPU6500_DEFAULT_CONFIG (logged sim)
         (\<lparr>regs = (\<lambda>_. 0), script = [HAL_OK, HAL_OK, HAL_TIMEOUT]\<rparr>, []) =
       (HAL_TIMEOUT, \<lparr>regs = (\<lambda>_. 0)(PWR_MGMT_1 := 0x01), script = []\<rparr>,
        [(MemWrite PWR_MGMT_1 0x80, HAL_OK), (MemWrite PWR_MGMT_1 0x01, HAL_OK),
         (MemWrite ACCEL_CONFIG 0x08, HAL_TIMEOUT)])"
    by (simp add: MPU6500_Init_def MPU6500_Reset_def MPU6500_ConfigureClock_def
        MPU6500_ConfigureAccel_def MPU6500_WriteRegister_def MPU6500_DEFAULT_CONFIG_def
        sim_defs)
  have steps: "steps_upto MPU6500_DEFAULT_CONFIG 0 3 =
     [MemWrite PWR_MGMT_1 0x80, MemWrite PWR_MGMT_1 0x01, MemWrite ACCEL_CONFIG 0x08,
      MemWrite ACCEL_CONFIG_2 0x04]"
    by (simp add: eval_nat_numeral steps_upto_Suc steps_upto_0 step_accesses_def
        MPU6500_DEFAULT_CONFIG_def)
  show ?thesis
    unfolding run steps by simp
qed

text \<open>
  C6. On the simulated register file, with a bus that does not fail: for every initial
  value of the power-management register, \<open>MPU6500_Sleep\<close> sets bit 6, a second
  \<open>MPU6500_Sleep\<close> ends in the same state and status as the first, and \<open>MPU6500_WakeUp\<close>
  after \<open>MPU6500_Sleep\<close> leaves the register with bit 6 clear and every other bit as it
  was, the clock-source field (bits 2 to 0) included; no other register changes.
\<close>

theorem Sleep_idempotent_WakeUp_clears_sleep_bit:
  "MPU6500_Sleep sim \<lparr>regs = r, script = []\<rparr> =
     (HAL_OK, \<lparr>regs = r(PWR_MGMT_1 := r PWR_MGMT_1 OR 0x40), script = []\<rparr>) \<and>
   MPU6500_Sleep sim (snd (MPU6500_Sleep sim \<lparr>regs = r, script = []\<rparr>)) =
     MPU6500_Sleep sim \<lparr>regs = r, script = []\<rparr> \<and>
   MPU6500_WakeUp sim (snd (MPU6500_Sleep sim \<lparr>regs = r, script = []\<rparr>)) =
     (HAL_OK, \<lparr>regs = r(PWR_MGMT_1 := r PWR_MGMT_1 AND NOT 0x40), script = []\<rparr>) \<and>
   (\<forall>n. bit (r PWR_MGMT_1 AND NOT 0x40) n \<longleftrightarrow> n \<noteq> 6 \<and> bit (r PWR_MGMT_1) n) \<and>
   (r PWR_MGMT_1 AND NOT 0x40) AND 0x07 = r PWR_MGMT_1 AND 0x07"
proof -
  have sleep: "MPU6500_Sleep sim \<lparr>regs = q, script = []\<rparr> =
      (HAL_OK, \<lparr>regs = q(PWR_MGMT_1 := q PWR_MGMT_1 OR 0x40), script = []\<rparr>)" for q
    by (simp add: MPU6500_Sleep_def MPU6500_ReadRegister_def MPU6500_WriteRegister_def
        sim_defs set_bit_u8_eq)
  have wake: "MPU6500_WakeUp sim \<lparr>regs = q, script = []\<rparr> =
      (HAL_OK, \<lparr>regs = q(PWR_MGMT_1 := q PWR_MGMT_1 AND NOT 0x40), script = []\<rparr>)" for q
    by (simp add: MPU6500_WakeUp_def MPU6500_ReadRegister_def MPU6500_WriteRegister_def
        sim_defs clear_bit_u8_eq)
  have twice: "(x OR 0x40) OR 0x40 = x OR 0x40" for x :: u8
    by (simp add: ac_simps)
  have clr: "(x OR 0x40) AND NOT 0x40 = x AND NOT 0x40" for x :: u8
    by (rule bit_word_eqI) (auto simp: bit_simps)
  have bits: "bit (x AND NOT 0x40) n \<longleftrightarrow> n \<noteq> 6 \<and> bit x n" for x :: u8 and n
  proof -
    have "bit (0x40 :: u8) n \<longleftrightarrow> n = 6"
      using bit_push_bit_iff [of 6 "1 :: u8" n] by (auto simp: bit_simps)
    then show ?thesis
      by (auto simp: bit_simps dest: bit_imp_le_length)
  qed
  have low: "(x AND NOT 0x40) AND 0x07 = x AND 0x07" for x :: u8
  proof -
    have "NOT (0x40 :: u8) AND 0x07 = 0x07" by simp
    then show ?thesis by (simp add: and.assoc)
  qed
  show ?thesis
  proof (intro conjI allI)
    show "MPU6500_Sleep sim \<lparr>regs = r, script = []\<rparr> =
        (HAL_OK, \<lparr>regs = r(PWR_MGMT_1 := r PWR_MGMT_1 OR 0x40), script = []\<rparr>)"
      by (rule sleep)
    show "MPU6500_Sleep sim (snd (MPU6500_Sleep sim \<lparr>regs = r, script = []\<rparr>)) =
        MPU6500_Sleep sim \<lparr>regs = r, script = []\<rparr>"
      by (simp only: sleep snd_conv fun_upd_same fun_upd_upd twice)
    show "MPU6500_WakeUp sim (snd (MPU6500_Sleep sim \<lparr>regs = r, script = []\<rparr>)) =
        (HAL_OK, \<lparr>regs = r(PWR_MGMT_1 := r PWR_MGMT_1 AND NOT 0x40), script = []\<rparr>)"
      by (simp only: sleep wake snd_conv fun_upd_same fun_upd_upd clr)
    show "bit (r PWR_MGMT_1 AND NOT 0x40) n \<longleftrightarrow> n \<noteq> 6 \<and> bit (r PWR_MGMT_1) n" for n
      by (rule bits)
    show "(r PWR_MGMT_1 AND NOT 0x40) AND 0x07 = r PWR_MGMT_1 AND 0x07"
      by (rule low)
  qed
qed

text \<open>
  C7. Over any transport, \<open>MPU6500_EnableDataReadyInterrupts\<close> performs exactly one bus
  access, the write of the byte \<open>0x01\<close> to \<open>INT_ENABLE\<close>, and
  \<open>MPU6500_DisableDataReadyInterrupts\<close> exactly one, the write of \<open>0x00\<close>; neither reads
  the register. On the simulated register file the register then holds \<open>0x01\<close>, whose only
  set bit is bit 0, or \<open>0x00\<close>, whatever it held before.
\<close>

theorem data_ready_interrupt_full_byte_write:
  "snd (snd (MPU6500_EnableDataReadyInterrupts (logged h) (b, l))) =
     l @ [(MemWrite INT_ENABLE 0x01, fst (Mem_Write h INT_ENABLE 0x01 b))] \<and>
   snd (snd (MPU6500_DisableDataReadyInterrupts (logged h) (b, l))) =
     l @ [(MemWrite INT_ENABLE 0x00, fst (Mem_Write h INT_ENABLE 0x00 b))] \<and>
   MPU6500_EnableDataReadyInterrupts sim \<lparr>regs = r, script = []\<rparr> =
     (HAL_OK, \<lparr>regs = r(INT_ENABLE := 0x01), script = []\<rparr>) \<and>
   MPU6500_DisableDataReadyInterrupts sim \<lparr>regs = r, script = []\<rparr> =
     (HAL_OK, \<lparr>regs = r(INT_ENABLE := 0x00), script = []\<rparr>) \<and>
   (\<forall>n. bit (0x01 :: u8) n \<longleftrightarrow> n = 0) \<and> (\<forall>n. \<not> bit (0x00 :: u8) n)"
  by (simp add: MPU6500_EnableDataReadyInterrupts_def MPU6500_DisableDataReadyInterrupts_def
      MPU6500_WriteRegister_def sim_defs bit_1_iff split: prod.splits)

text \<open>
  C8. For every two bytes the transport returns for the temperature base register,
  \<open>MPU6500_ReadTemp\<close> stores exactly their signed 16-bit big-endian combination (first
  byte high, second byte low); no calibration offset is subtracted and nothing is divided.
\<close>

theorem ReadTemp_raw_big_endian:
  assumes "Mem_Read h TEMP_OUT_H 2 (\<lambda>_. 0) b = (HAL_OK, buf, b')"
  shows "\<exists>t. MPU6500_ReadTemp h temp b = (HAL_OK, t, b') \<and>
             sint t = be16_signed (buf 0) (buf 1)"
  using assms by (simp add: MPU6500_ReadTemp_def sint_combine)

theorem ReadTemp_raw_big_endian_witness:
  "sint (fst (snd (MPU6500_ReadTemp sim 0
      \<lparr>regs = (\<lambda>_. 0)(0x41 := 0xFF, 0x42 := 0x38), script = []\<rparr>))) = - 200"
proof -
  have h: "Mem_Read sim TEMP_OUT_H 2 (\<lambda>_. 0)
      \<lparr>regs = (\<lambda>_. 0)(0x41 := 0xFF, 0x42 := 0x38), script = []\<rparr> =
      (HAL_OK,
       (\<lambda>i. if i < 2 then ((\<lambda>_. 0)(0x41 := 0xFF, 0x42 := 0x38)) (TEMP_OUT_H + of_nat i) else 0),
       \<lparr>regs = (\<lambda>_. 0)(0x41 := 0xFF, 0x42 := 0x38), script = []\<rparr>)"
    by (simp add: sim_defs cong: if_cong)
  show ?thesis
    using ReadTemp_raw_big_endian [OF h, of 0]
    by (auto simp: be16_signed_def TEMP_OUT_H_def)
qed

text \<open>
  C9. For every byte the transport provides for the identity register,
  \<open>MPU6500_ReadWhoAmI\<close> stores exactly that byte, unmodified, and returns the transport's
  status unchanged: whatever status, buffer and bus state the one-byte read at \<open>WHO_AM_I\<close>
  yields, the operation returns that status and leaves byte 0 of that buffer in the
  caller's cell.
\<close>

theorem ReadWhoAmI_returns_transport_byte:
  assumes "Mem_Read h WHO_AM_I 1 (\<lambda>_. whoami) b = (status, buf, b')"
  shows "MPU6500_ReadWhoAmI h whoami b = (status, buf 0, b')"
  using assms by (simp add: MPU6500_ReadWhoAmI_def MPU6500_ReadRegister_def)

theorem ReadWhoAmI_returns_transport_byte_witness:
  "MPU6500_ReadWhoAmI sim 0 \<lparr>regs = (\<lambda>_. 0)(WHO_AM_I := 0x70), script = []\<rparr> =
     (HAL_OK, 0x70, \<lparr>regs = (\<lambda>_. 0)(WHO_AM_I := 0x70), script = []\<rparr>)"
proof -
  have h: "Mem_Read sim WHO_AM_I 1 (\<lambda>_. 0) \<lparr>regs = (\<lambda>_. 0)(WHO_AM_I := 0x70), script = []\<rparr> =
      (HAL_OK, (\<lambda>i. if i < 1 then ((\<lambda>_. 0)(WHO_AM_I := 0x70)) (WHO_AM_I + of_nat i) else 0),
       \<lparr>regs = (\<lambda>_. 0)(WHO_AM_I := 0x70), script = []\<rparr>)"
    by (simp add: sim_defs cong: if_cong)
  show ?thesis
    using ReadWhoAmI_returns_transport_byte [OF h] by simp
qed

text \<open>
  C10. For each of \<open>MPU6500_ReadAccel\<close>, \<open>MPU6500_ReadGyro\<close>, \<open>MPU6500_ReadRawAccel\<close>,
  \<open>MPU6500_ReadRawGyro\<close> and \<open>MPU6500_ReadTemp\<close>, over any transport: if the bus read
  fails, the operation returns the status of the read and every output cell holds what
  it held before the call.
\<close>

theorem failed_read_keeps_outputs:
  assumes "status \<noteq> HAL_OK"
  shows
   "(Mem_Read h ACCEL_XOUT_H 6 (\<lambda>_. 0) (bus s) = (status, buf, b') \<longrightarrow>
       MPU6500_ReadAccel cfg h fout s = (status, fout, s\<lparr>bus := b'\<rparr>)) \<and>
    (Mem_Read h GYRO_XOUT_H 6 (\<lambda>_. 0) (bus s) = (status, buf, b') \<longrightarrow>
       MPU6500_ReadGyro cfg h fout s = (status, fout, s\<lparr>bus := b'\<rparr>)) \<and>
    (Mem_Read h ACCEL_XOUT_H 6 (\<lambda>_. 0) b = (status, buf, b') \<longrightarrow>
       MPU6500_ReadRawAccel h out b = (status, out, b')) \<and>
    (Mem_Read h GYRO_XOUT_H 6 (\<lambda>_. 0) b = (status, buf, b') \<longrightarrow>
       MPU6500_ReadRawGyro h out b = (status, out, b')) \<and>
    (Mem_Read h TEMP_OUT_H 2 (\<lambda>_. 0) b = (status, buf, b') \<longrightarrow>
       MPU6500_ReadTemp h temp b = (status, temp, b'))"
  using assms
  by (simp add: MPU6500_ReadAccel_def MPU6500_ReadGyro_def MPU6500_ReadRawAccel_def
      MPU6500_ReadRawGyro_def MPU6500_ReadTemp_def)

theorem failed_read_keeps_outputs_witness:
  "MPU6500_ReadAccel MPU6500_DEFAULT_CONFIG sim (1, 2, 3)
      \<lparr>bus = \<lparr>regs = (\<lambda>_. 0), script = [HAL_ERROR]\<rparr>,
       accel_offset = (0, 0, 0), gyro_offset = (0, 0, 0)\<rparr> =
     (HAL_ERROR, (1, 2, 3),
      \<lparr>bus = \<lparr>regs = (\<lambda>_. 0), script = []\<rparr>,
       accel_offset = (0, 0, 0), gyro_offset = (0, 0, 0)\<rparr>) \<and>
   MPU6500_ReadGyro MPU6500_DEFAULT_CONFIG sim (1, 2, 3)
      \<lparr>bus = \<lparr>regs = (\<lambda>_. 0), script = [HAL_ERROR]\<rparr>,
       accel_offset = (0, 0, 0), gyro_offset = (0, 0, 0)\<rparr> =
     (HAL_ERROR, (1, 2, 3),
      \<lparr>bus = \<lparr>regs = (\<lambda>_. 0), script = []\<rparr>,
       accel_offset = (0, 0, 0), gyro_offset = (0, 0, 0)\<rparr>) \<and>
   MPU6500_ReadRawAccel sim (4, 5, 6) \<lparr>regs = (\<lambda>_. 0), script = [HAL_ERROR]\<rparr> =
     (HAL_ERROR, (4, 5, 6), \<lparr>regs = (\<lambda>_. 0), script = []\<rparr>) \<and>
   MPU6500_ReadRawGyro sim (4, 5, 6) \<lparr>regs = (\<lambda>_. 0), script = [HAL_ERROR]\<rparr> =
     (HAL_ERROR, (4, 5, 6), \<lparr>regs = (\<lambda>_. 0), script = []\<rparr>) \<and>
   MPU6500_ReadTemp sim 7 \<lparr>regs = (\<lambda>_. 0), script = [HAL_ERROR]\<rparr> =
     (HAL_ERROR, 7, \<lparr>regs = (\<lambda>_. 0), script = []\<rparr>)"
proof -
  have nok: "HAL_ERROR \<noteq> HAL_OK"
    by simp
  have rd: "Mem_Read sim reg n (\<lambda>_. 0) \<lparr>regs = (\<lambda>_. 0), script = [HAL_ERROR]\<rparr> =
      (HAL_ERROR, (\<lambda>_. 0), \<lparr>regs = (\<lambda>_. 0), script = []\<rparr>)" for reg n
    by (simp add: sim_defs)
  show ?thesis
    using failed_read_keeps_outputs [OF nok, where h = sim and buf = "\<lambda>_. 0"
        and s = "\<lparr>bus = \<lparr>regs = (\<lambda>_. 0), script = [HAL_ERROR]\<rparr>,
                  accel_offset = (0, 0, 0), gyro_offset = (0, 0, 0)\<rparr>"
        and b = "\<lparr>regs = (\<lambda>_. 0), script = [HAL_ERROR]\<rparr>"
        and b' = "\<lparr>regs = (\<lambda>_. 0), script = []\<rparr>"
        and cfg = MPU6500_DEFAULT_CONFIG and fout = "(1, 2, 3)" and out = "(4, 5, 6)"
        and temp = 7]
    by (simp add: rd)
qed

end
